theory Spec2Isabelle
  imports
    Main
    "HOL-Library.Char_ord"
    "HOL-Library.List_Lexorder"
    "HOL-Library.Product_Lexorder"
begin

section \<open>Glob matching as the indexer uses it\<close>

text \<open>
  \<^verbatim>\<open>index_files\<close> filters relative paths with
  \<^verbatim>\<open>any(fnmatch.fnmatch(rel_path, pat) for pat in globs)\<close>. The matcher is the
  Python standard library's, on a POSIX host (where \<^verbatim>\<open>os.path.normcase\<close> is the
  identity, so matching is case-sensitive). Its documented meaning: \<^verbatim>\<open>*\<close> matches
  everything, \<^verbatim>\<open>?\<close> any single character, \<^verbatim>\<open>[seq]\<close> any character in
  \<^verbatim>\<open>seq\<close>, \<^verbatim>\<open>[!seq]\<close> any character not in it, and the path separator is not
  special. A pattern is first translated into a list of items, which is then matched
  against the whole name. The library merges a run of stars into one star before it
  compiles the pattern; here the run is kept, since it matches the same names. A
  \<^typ>\<open>char\<close> stands for one character of a Python string.
\<close>

datatype glob_item = Star | AnyChar | Literal char | CharSet bool "(char \<times> char) list"

text \<open>
  The members of a bracket expression, as ranges \<open>(lo, hi)\<close>; a single character
  \<open>c\<close> is the range \<open>(c, c)\<close>. A hyphen is a range operator only between two
  characters: never in the first position, never in the last, and never directly after
  the upper end of a range.
\<close>

fun set_items :: "string \<Rightarrow> (char \<times> char) list" where
  "set_items [] = []"
| "set_items [c] = [(c, c)]"
| "set_items (c # x # rest) =
     (if x = CHR ''-''
      then (case rest of
              [] \<Rightarrow> [(c, c), (x, x)]
            | d # rest' \<Rightarrow> (c, d) # set_items rest')
      else (c, c) # set_items (x # rest))"

definition char_set :: "string \<Rightarrow> glob_item" where
  "char_set stuff =
     (case stuff of
        [] \<Rightarrow> CharSet False []
      | c # body \<Rightarrow>
          if c = CHR ''!'' then CharSet True (set_items body)
          else CharSet False (set_items stuff))"

text \<open>
  The search for the closing bracket: an optional \<^verbatim>\<open>!\<close>, then an optional
  \<^verbatim>\<open>]\<close> (a bracket in first position is a member), then everything up to the
  next \<^verbatim>\<open>]\<close>. The result is the text between the brackets and the rest of the
  pattern, or \<open>None\<close> when the bracket is never closed.
\<close>

definition close_bracket :: "string \<Rightarrow> (string \<times> string) option" where
  "close_bracket rest =
     (let (bang, r1) = (case rest of
                          [] \<Rightarrow> ([], rest)
                        | c # r \<Rightarrow> if c = CHR ''!'' then ([c], r) else ([], rest));
          (first, r2) = (case r1 of
                           [] \<Rightarrow> ([], r1)
                         | c # r \<Rightarrow> if c = CHR '']'' then ([c], r) else ([], r1));
          mid = takeWhile (\<lambda>x. x \<noteq> CHR '']'') r2;
          r3 = dropWhile (\<lambda>x. x \<noteq> CHR '']'') r2
      in (case r3 of
            [] \<Rightarrow> None
          | _ # after \<Rightarrow> Some (bang @ first @ mid, after)))"

lemma close_bracket_shorter:
  assumes "close_bracket rest = Some (stuff, after)"
  shows "length after < length rest"
proof -
  define r1 where "r1 = (case rest of
      [] \<Rightarrow> rest | c # r \<Rightarrow> if c = CHR ''!'' then r else rest)"
  define r2 where "r2 = (case r1 of
      [] \<Rightarrow> r1 | c # r \<Rightarrow> if c = CHR '']'' then r else r1)"
  have l1: "length r1 \<le> length rest"
    by (simp add: r1_def split: list.splits)
  have l2: "length r2 \<le> length r1"
    by (simp add: r2_def split: list.splits)
  have "dropWhile (\<lambda>x. x \<noteq> CHR '']'') r2 = CHR '']'' # after"
  proof -
    from assms obtain y where y: "dropWhile (\<lambda>x. x \<noteq> CHR '']'') r2 = y # after"
      by (auto simp: close_bracket_def r1_def r2_def Let_def
          split: list.splits if_splits)
    then have "y = hd (dropWhile (\<lambda>x. x \<noteq> CHR '']'') r2)"
      by simp
    moreover have "dropWhile (\<lambda>x. x \<noteq> CHR '']'') r2 \<noteq> []"
      using y by simp
    ultimately have "y = CHR '']''"
      using hd_dropWhile [of "\<lambda>x. x \<noteq> CHR '']''" r2] by simp
    with y show ?thesis by simp
  qed
  then have "length (dropWhile (\<lambda>x. x \<noteq> CHR '']'') r2) = Suc (length after)"
    by simp
  moreover have "length (dropWhile (\<lambda>x. x \<noteq> CHR '']'') r2) \<le> length r2"
    by (rule length_dropWhile_le)
  ultimately show ?thesis
    using l1 l2 by simp
qed

function translate :: "string \<Rightarrow> glob_item list" where
  "translate [] = []"
| "translate (c # rest) =
     (if c = CHR ''*'' then Star # translate rest
      else if c = CHR ''?'' then AnyChar # translate rest
      else if c = CHR ''['' then
        (case close_bracket rest of
           None \<Rightarrow> Literal c # translate rest
         | Some (stuff, after) \<Rightarrow> char_set stuff # translate after)
      else Literal c # translate rest)"
  by pat_completeness auto
termination
  by (relation "measure length") (auto dest: close_bracket_shorter)

definition in_ranges :: "char \<Rightarrow> (char \<times> char) list \<Rightarrow> bool" where
  "in_ranges c rs = list_ex (\<lambda>(lo, hi). lo \<le> c \<and> c \<le> hi) rs"

text \<open>
  Matching is anchored at both ends (the library compiles the pattern with a final
  \<^verbatim>\<open>\Z\<close> and applies \<^verbatim>\<open>match\<close>), and a star or a question mark matches the
  separator and the newline like any other character.
\<close>

fun glob_match :: "glob_item list \<Rightarrow> string \<Rightarrow> bool" where
  "glob_match [] s = (s = [])"
| "glob_match (Star # items) s =
     (glob_match items s \<or>
      (case s of [] \<Rightarrow> False | _ # s' \<Rightarrow> glob_match (Star # items) s'))"
| "glob_match (AnyChar # items) s =
     (case s of [] \<Rightarrow> False | _ # s' \<Rightarrow> glob_match items s')"
| "glob_match (Literal c # items) s =
     (case s of [] \<Rightarrow> False | x # s' \<Rightarrow> x = c \<and> glob_match items s')"
| "glob_match (CharSet neg rs # items) s =
     (case s of [] \<Rightarrow> False | x # s' \<Rightarrow> (in_ranges x rs \<noteq> neg) \<and> glob_match items s')"

definition fnmatch :: "string \<Rightarrow> string \<Rightarrow> bool" where
  "fnmatch name pat = glob_match (translate pat) name"

text \<open>\<^verbatim>\<open>any(fnmatch.fnmatch(rel_path, pat) for pat in globs)\<close>\<close>

definition matches_any :: "string \<Rightarrow> string list \<Rightarrow> bool" where
  "matches_any rel_path globs = list_ex (\<lambda>pat. fnmatch rel_path pat) globs"


section \<open>Shell-style glob matching as the specification words it\<close>

text \<open>
  The specification asks for shell-style glob semantics with \<^verbatim>\<open>*\<close>,
  \<^verbatim>\<open>**\<close>, \<^verbatim>\<open>?\<close> and character classes over slash-separated paths. Following
  these words, and not the source: pattern and path are split at the slashes; a
  pattern segment \<^verbatim>\<open>**\<close> stands for any number of path segments, none included;
  every other pattern segment matches exactly one path segment, in which a star, a
  question mark and a class mean what they mean above (inside a segment there is no
  slash for them to meet). This definition is only compared with \<open>matches_any\<close>.
\<close>

fun split_slash :: "string \<Rightarrow> string list" where
  "split_slash [] = [[]]"
| "split_slash (c # cs) =
     (if c = CHR ''/'' then [] # split_slash cs
      else (case split_slash cs of
              [] \<Rightarrow> [[c]]
            | seg # segs \<Rightarrow> (c # seg) # segs))"

fun shell_glob_segments :: "string list \<Rightarrow> string list \<Rightarrow> bool" where
  "shell_glob_segments [] names = (names = [])"
| "shell_glob_segments (p # ps) names =
     (if p = ''**''
      then (shell_glob_segments ps names \<or>
            (case names of
               [] \<Rightarrow> False
             | _ # names' \<Rightarrow> shell_glob_segments (p # ps) names'))
      else (case names of
              [] \<Rightarrow> False
            | n # names' \<Rightarrow> fnmatch n p \<and> shell_glob_segments ps names'))"

definition spec_shell_glob :: "string \<Rightarrow> string \<Rightarrow> bool" where
  "spec_shell_glob rel_path pat =
     shell_glob_segments (split_slash pat) (split_slash rel_path)"

definition spec_matches :: "string \<Rightarrow> string list \<Rightarrow> bool" where
  "spec_matches rel_path globs = list_ex (\<lambda>pat. spec_shell_glob rel_path pat) globs"


section \<open>The directory tree and its walk\<close>

text \<open>
  What \<^verbatim>\<open>index_files\<close> sees of the file system below its root. A directory lists
  its entries in the order the operating system enumerates them, which is arbitrary.
  An entry that is not a directory carries the outcome of \<^verbatim>\<open>os.path.getsize\<close>
  (\<open>None\<close> when it raises \<^verbatim>\<open>OSError\<close>) and the outcome of opening it and reading
  its text leniently (\<open>None\<close> when that raises).
\<close>

datatype node = File "nat option" "string option" | Dir "(string \<times> node) list"

text \<open>
  \<^verbatim>\<open>os.walk(root)\<close> with the inner loop over \<^verbatim>\<open>filenames\<close>: top-down, the
  non-directory entries of a directory first, then each subdirectory in turn. A root
  that is not a directory yields nothing. Each file comes with its path relative to the
  root (\<^verbatim>\<open>os.path.relpath(os.path.join(dirpath, name), root)\<close>: the names below the
  root, joined by slashes); \<open>pre\<close> is the relative path of the current directory,
  with its trailing slash.
\<close>

fun walk :: "string \<Rightarrow> node \<Rightarrow> (string \<times> nat option \<times> string option) list" where
  "walk pre (File _ _) = []"
| "walk pre (Dir es) =
     concat (map (\<lambda>(name, c). case c of
                                 File sz tx \<Rightarrow> [(pre @ name, sz, tx)]
                               | Dir _ \<Rightarrow> []) es) @
     concat (map (\<lambda>(name, c). case c of
                                 Dir _ \<Rightarrow> walk (pre @ name @ ''/'') c
                               | File _ _ \<Rightarrow> []) es)"


section \<open>The file index\<close>

text \<open>
  One dictionary of the listing; \<open>fsize\<close> is its key \<^verbatim>\<open>size\<close>.
\<close>

record file_entry =
  path :: string
  fsize :: nat
  preview :: string

text \<open>
  The first loop of \<^verbatim>\<open>index_files\<close>: a file is skipped when it matches an exclude
  pattern; otherwise, when include patterns are given, it is skipped unless it matches
  one; otherwise it is skipped when its size cannot be read. What is left is appended to
  the candidates as the pair of its relative path and its size.
\<close>

fun candidates ::
  "string list \<Rightarrow> string list \<Rightarrow> (string \<times> nat option \<times> string option) list \<Rightarrow>
   (string \<times> nat) list" where
  "candidates include_globs exclude_globs [] = []"
| "candidates include_globs exclude_globs ((rel_path, getsize, tx) # files) =
     (if matches_any rel_path exclude_globs
      then candidates include_globs exclude_globs files
      else if include_globs \<noteq> [] \<and> \<not> matches_any rel_path include_globs
      then candidates include_globs exclude_globs files
      else (case getsize of
              None \<Rightarrow> candidates include_globs exclude_globs files
            | Some sz \<Rightarrow> (rel_path, sz) # candidates include_globs exclude_globs files))"

text \<open>
  The preview of a retained file: the file at the relative path is opened again and
  its first 200 characters are read; any failure leaves the preview empty.
\<close>

definition read_preview ::
  "(string \<times> nat option \<times> string option) list \<Rightarrow> string \<Rightarrow> string" where
  "read_preview files rel_path =
     (case map_of files rel_path of
        Some (_, Some tx) \<Rightarrow> take 200 tx
      | _ \<Rightarrow> [])"

text \<open>
  The second loop, over the sorted candidates, with \<open>out\<close> and \<open>total_bytes\<close>
  (the source's \<^verbatim>\<open>total\<close>) as the loop's variables. Both \<^verbatim>\<open>break\<close>s return
  what has been collected so far.
\<close>

fun build_output ::
  "(string \<Rightarrow> string) \<Rightarrow> int \<Rightarrow> int \<Rightarrow> (string \<times> nat) list \<Rightarrow>
   file_entry list \<Rightarrow> nat \<Rightarrow> file_entry list" where
  "build_output prev max_files max_bytes [] out total_bytes = out"
| "build_output prev max_files max_bytes ((rel_path, sz) # cs) out total_bytes =
     (if int (length out) \<ge> max_files then out
      else if int total_bytes + int sz > max_bytes then out
      else build_output prev max_files max_bytes cs
             (out @ [\<lparr>path = rel_path, fsize = sz, preview = prev rel_path\<rparr>])
             (total_bytes + sz))"

text \<open>
  \<^verbatim>\<open>candidates.sort()\<close> sorts the pairs by path and then by size; paths compare
  character by character, a proper prefix before its extensions.
\<close>

definition index_files ::
  "node \<Rightarrow> string list \<Rightarrow> string list \<Rightarrow> int \<Rightarrow> int \<Rightarrow> file_entry list" where
  "index_files root include_globs exclude_globs max_files max_bytes =
     (let files = walk [] root;
          cands = sort (candidates include_globs exclude_globs files)
      in build_output (read_preview files) max_files max_bytes cands [] 0)"

text \<open>The entry that the second loop appends for a candidate.\<close>

definition mk_entry :: "(string \<Rightarrow> string) \<Rightarrow> string \<times> nat \<Rightarrow> file_entry" where
  "mk_entry prev c = \<lparr>path = fst c, fsize = snd c, preview = prev (fst c)\<rparr>"

text \<open>
  The defaults of \<^verbatim>\<open>/prepare\<close> for the two pattern lists.
\<close>

definition default_include :: "string list" where
  "default_include =
     [''**/*.py'', ''**/*.ts'', ''**/*.js'', ''**/*.go'', ''**/*.java'', ''**/*.cs'',
      ''**/*.rb'', ''**/*.php'', ''**/*.rs'', ''**/*.cpp'', ''**/*.c'', ''**/*.md'',
      ''**/*.txt'']"

definition default_exclude :: "string list" where
  "default_exclude =
     [''**/.git/**'', ''**/node_modules/**'', ''**/.venv/**'', ''**/dist/**'',
      ''**/build/**'', ''**/.cache/**'']"


section \<open>Paths and the file system they resolve in\<close>

text \<open>
  The bundle reader and the two endpoints reach files through path strings that they
  build with \<^verbatim>\<open>os.path.join\<close>. For them the file system is a map from such a path
  to what it denotes: a regular file with its text (read leniently, so decoding never
  fails), a directory, or nothing. Opening and reading a regular file, creating a
  directory and removing a tree are taken to succeed.
\<close>

datatype fsobj = RegFile string | Directory

type_synonym filesystem = "string \<rightharpoonup> fsobj"

definition isfile :: "filesystem \<Rightarrow> string \<Rightarrow> bool" where
  "isfile fs p = (case fs p of Some (RegFile _) \<Rightarrow> True | _ \<Rightarrow> False)"

definition isdir :: "filesystem \<Rightarrow> string \<Rightarrow> bool" where
  "isdir fs p = (case fs p of Some Directory \<Rightarrow> True | _ \<Rightarrow> False)"

definition read_text :: "filesystem \<Rightarrow> string \<Rightarrow> string" where
  "read_text fs p = (case fs p of Some (RegFile content) \<Rightarrow> content | _ \<Rightarrow> [])"

text \<open>
  \<^verbatim>\<open>os.path.join(a, b)\<close> on POSIX: an absolute \<open>b\<close> replaces \<open>a\<close>; otherwise
  the two are joined by one slash, unless \<open>a\<close> is empty or already ends with one.
\<close>

definition path_join :: "string \<Rightarrow> string \<Rightarrow> string" where
  "path_join a b =
     (if b \<noteq> [] \<and> hd b = CHR ''/'' then b
      else if a = [] \<or> last a = CHR ''/'' then a @ b
      else a @ ''/'' @ b)"

text \<open>
  \<^verbatim>\<open>shutil.rmtree(d, ignore_errors=True)\<close> removes \<open>d\<close> and every path below it;
  \<^verbatim>\<open>os.makedirs(p, exist_ok=True)\<close> leaves a directory at \<open>p\<close>.
\<close>

definition dir_prefix :: "string \<Rightarrow> string" where
  "dir_prefix d = (if d \<noteq> [] \<and> last d = CHR ''/'' then d else d @ ''/'')"

definition inside :: "string \<Rightarrow> string \<Rightarrow> bool" where
  "inside d p = (p = d \<or> take (length (dir_prefix d)) p = dir_prefix d)"

definition rmtree :: "filesystem \<Rightarrow> string \<Rightarrow> filesystem" where
  "rmtree fs d = (\<lambda>p. if inside d p then None else fs p)"

definition makedirs :: "filesystem \<Rightarrow> string \<Rightarrow> filesystem" where
  "makedirs fs p = fs(p \<mapsto> Directory)"

text \<open>
  The exceptions that travel through the endpoints, each with its message;
  \<open>str_of_error\<close> is Python's \<^verbatim>\<open>str(e)\<close>.
\<close>

datatype error =
    HTTPException nat string
  | FileNotFoundError string
  | CalledProcessError string
  | URLError string
  | BadZipFile string

fun str_of_error :: "error \<Rightarrow> string" where
  "str_of_error (HTTPException code detail) = detail"
| "str_of_error (FileNotFoundError msg) = msg"
| "str_of_error (CalledProcessError msg) = msg"
| "str_of_error (URLError msg) = msg"
| "str_of_error (BadZipFile msg) = msg"


section \<open>The bundle reader\<close>

abbreviation newline :: string where
  "newline \<equiv> [CHR 0x0A]"

text \<open>Python's \<^verbatim>\<open>sep.join(parts)\<close>.\<close>

fun str_join :: "string \<Rightarrow> string list \<Rightarrow> string" where
  "str_join sep [] = []"
| "str_join sep [x] = x"
| "str_join sep (x # y # zs) = x @ sep @ str_join sep (y # zs)"

text \<open>The block of one file: \<^verbatim>\<open>f"# === {rel} ===\n{f.read()}\n"\<close>.\<close>

definition file_block :: "string \<Rightarrow> string \<Rightarrow> string" where
  "file_block rel content = ''# === '' @ rel @ '' ==='' @ newline @ content @ newline"

text \<open>
  The loop of \<^verbatim>\<open>read_selected_bundle\<close> over the selected paths, with the list
  \<open>parts\<close> as its variable. The \<^verbatim>\<open>raise\<close> leaves the loop with the error and
  nothing else.
\<close>

fun read_parts ::
  "filesystem \<Rightarrow> string \<Rightarrow> string list \<Rightarrow> string list \<Rightarrow> error + string list" where
  "read_parts fs root [] parts = Inr parts"
| "read_parts fs root (rel # rest) parts =
     (let fp = path_join root rel in
      if \<not> isfile fs fp then Inl (FileNotFoundError (''Missing file '' @ rel))
      else read_parts fs root rest (parts @ [file_block rel (read_text fs fp)]))"

definition read_selected_bundle ::
  "filesystem \<Rightarrow> string \<Rightarrow> string list \<Rightarrow> error + string" where
  "read_selected_bundle fs root selected_paths =
     (case read_parts fs root selected_paths [] of
        Inl e \<Rightarrow> Inl e
      | Inr parts \<Rightarrow> Inr (str_join newline parts))"


section \<open>The shared volume and the outside world\<close>

text \<open>
  A container sees the file system \<open>mounted\<close>, with the volume at \<^verbatim>\<open>/data\<close>;
  \<open>committed\<close> is what the volume holds for every other container.
  \<^verbatim>\<open>volume.commit()\<close> publishes the container's view and \<^verbatim>\<open>volume.reload()\<close>
  fetches the published one.
\<close>

record volume_state =
  mounted :: filesystem
  committed :: filesystem

definition commit :: "volume_state \<Rightarrow> volume_state" where
  "commit s = s\<lparr>committed := mounted s\<rparr>"

definition reload :: "volume_state \<Rightarrow> volume_state" where
  "reload s = s\<lparr>mounted := committed s\<rparr>"

text \<open>
  What the helpers cannot decide by themselves comes from the world outside: the value
  of \<^verbatim>\<open>GITHUB_TOKEN\<close>; what running \<^verbatim>\<open>git\<close> with a command line does to the file
  system and whether it exits with success; the bytes behind a URL (\<open>None\<close> when it
  cannot be reached); the members of a zip archive, with names relative to the
  extraction root (\<open>None\<close> when the bytes are not a zip archive); and the directory
  tree that \<^verbatim>\<open>os.walk\<close> finds at a path of a file system.
\<close>

record world =
  github_token :: "string option"
  run_git :: "string list \<Rightarrow> filesystem \<Rightarrow> bool \<times> filesystem"
  urlopen :: "string \<Rightarrow> string option"
  zip_members :: "string \<Rightarrow> (string \<times> fsobj) list option"
  scan_tree :: "filesystem \<Rightarrow> string \<Rightarrow> node"


section \<open>The materializers\<close>

definition startswith :: "string \<Rightarrow> string \<Rightarrow> bool" where
  "startswith s pre = (take (length pre) s = pre)"

definition endswith :: "string \<Rightarrow> string \<Rightarrow> bool" where
  "endswith s suf = (length suf \<le> length s \<and> drop (length s - length suf) s = suf)"

text \<open>\<^verbatim>\<open>s.replace("https://", new)\<close>: every occurrence, from the left.\<close>

function str_replace_https :: "string \<Rightarrow> string \<Rightarrow> string" where
  "str_replace_https new [] = []"
| "str_replace_https new (c # cs) =
     (if startswith (c # cs) ''https://''
      then new @ str_replace_https new (drop 8 (c # cs))
      else c # str_replace_https new cs)"
  by pat_completeness auto
termination
  by (relation "measure (\<lambda>(new, s). length s)") auto

text \<open>
  Python's truth value of an optional string, and the value of \<^verbatim>\<open>v or d\<close> for an
  optional string, list and integer: \<^verbatim>\<open>None\<close>, the empty string, the empty list
  and zero are false.
\<close>

definition truthy :: "string option \<Rightarrow> bool" where
  "truthy v = (case v of None \<Rightarrow> False | Some s \<Rightarrow> s \<noteq> [])"

definition str_val :: "string option \<Rightarrow> string" where
  "str_val v = (case v of None \<Rightarrow> [] | Some s \<Rightarrow> s)"

definition str_or :: "string option \<Rightarrow> string \<Rightarrow> string" where
  "str_or v d = (case v of None \<Rightarrow> d | Some s \<Rightarrow> if s = [] then d else s)"

definition list_or :: "string list option \<Rightarrow> string list \<Rightarrow> string list" where
  "list_or v d = (case v of None \<Rightarrow> d | Some xs \<Rightarrow> if xs = [] then d else xs)"

definition int_or :: "int option \<Rightarrow> int \<Rightarrow> int" where
  "int_or v d = (case v of None \<Rightarrow> d | Some n \<Rightarrow> if n = 0 then d else n)"

definition clone_repo ::
  "world \<Rightarrow> string \<Rightarrow> string \<Rightarrow> string \<Rightarrow> filesystem \<Rightarrow> (error + unit) \<times> filesystem" where
  "clone_repo w repo_url ref dest fs =
     (let url = (if truthy (github_token w) \<and> startswith repo_url ''https://github.com/''
                 then str_replace_https
                        (''https://'' @ str_val (github_token w) @ '':x-oauth-basic@'') repo_url
                 else repo_url);
          cmd = [''git'', ''clone'', ''--depth'', ''1'', ''--branch'', ref, url, dest]
      in case run_git w cmd fs of
           (True, fs') \<Rightarrow> (Inr (), fs')
         | (False, fs') \<Rightarrow> (Inl (CalledProcessError ''git clone failed''), fs'))"

definition extractall ::
  "filesystem \<Rightarrow> string \<Rightarrow> (string \<times> fsobj) list \<Rightarrow> filesystem" where
  "extractall fs extract_root members =
     foldl (\<lambda>fs' (name, obj). fs'(path_join extract_root name \<mapsto> obj)) fs members"

definition download_and_extract_zip ::
  "world \<Rightarrow> string \<Rightarrow> string \<Rightarrow> filesystem \<Rightarrow> (error + string) \<times> filesystem" where
  "download_and_extract_zip w zip_url extract_root fs =
     (let fs1 = makedirs fs extract_root;
          zip_path = path_join extract_root ''archive.zip''
      in case urlopen w zip_url of
           None \<Rightarrow> (Inl (URLError ''urlopen error''), fs1)
         | Some data \<Rightarrow>
             (let fs2 = fs1(zip_path \<mapsto> RegFile data)
              in case zip_members w data of
                   None \<Rightarrow> (Inl (BadZipFile ''File is not a zip file''), fs2)
                 | Some members \<Rightarrow> (Inr extract_root, extractall fs2 extract_root members)))"

definition extract_zip_file ::
  "world \<Rightarrow> string \<Rightarrow> string \<Rightarrow> filesystem \<Rightarrow> (error + string) \<times> filesystem" where
  "extract_zip_file w zip_path extract_root fs =
     (let fs1 = makedirs fs extract_root
      in case zip_members w (read_text fs1 zip_path) of
           None \<Rightarrow> (Inl (BadZipFile ''File is not a zip file''), fs1)
         | Some members \<Rightarrow> (Inr extract_root, extractall fs1 extract_root members))"

definition write_snippet_temp ::
  "string \<Rightarrow> string \<Rightarrow> filesystem \<Rightarrow> string \<times> filesystem" where
  "write_snippet_temp parent code fs =
     (let root = path_join parent ''snippet'';
          fs1 = makedirs fs root
      in (root, fs1(path_join root ''snippet.txt'' \<mapsto> RegFile code)))"


section \<open>The endpoint that prepares a source\<close>

text \<open>
  The validated JSON body of \<^verbatim>\<open>/prepare\<close> (\<^verbatim>\<open>PrepareBody\<close>), its fields prefixed
  with \<open>pb\<close>. A request is either JSON, whose body may fail validation (\<open>None\<close>;
  the 400 then carries the validator's message, shortened here to its fixed part),
  or a form with its \<^verbatim>\<open>input_type\<close> field (stripped, empty when absent) and its
  uploaded file, if any, with the file's name and bytes.
\<close>

record prepare_body =
  pb_input_type :: string
  pb_repo_url :: "string option"
  pb_repo_ref :: "string option"
  pb_subdir :: "string option"
  pb_zip_url :: "string option"
  pb_code_snippet :: "string option"
  pb_include_globs :: "string list option"
  pb_exclude_globs :: "string list option"
  pb_max_files :: "int option"
  pb_max_total_bytes :: "int option"

datatype upload = UploadFile "string option" string

datatype prepare_request =
    JsonRequest "prepare_body option"
  | FormRequest string "upload option"

type_synonym prepare_response = "string \<times> file_entry list"

definition lower_char :: "char \<Rightarrow> char" where
  "lower_char c =
     (if CHR ''A'' \<le> c \<and> c \<le> CHR ''Z'' then char_of (of_char c + (32::nat)) else c)"

text \<open>Step 3b of the JSON mode: the source becomes a directory, the root to index.\<close>

definition materialize ::
  "world \<Rightarrow> prepare_body \<Rightarrow> string \<Rightarrow> filesystem \<Rightarrow> (error + string) \<times> filesystem" where
  "materialize w body work_root fs =
     (if pb_input_type body = ''github_repo'' \<or> pb_input_type body = ''github_repo_directory''
      then
        (if \<not> truthy (pb_repo_url body)
         then (Inl (HTTPException 400 ''repo_url is required for GitHub input''), fs)
         else
           (let repo_dir = path_join work_root ''repo'' in
            case clone_repo w (str_val (pb_repo_url body)) (str_or (pb_repo_ref body) ''main'')
                   repo_dir fs of
              (Inl e, fs1) \<Rightarrow> (Inl e, fs1)
            | (Inr _, fs1) \<Rightarrow>
                (let root = (if pb_input_type body = ''github_repo_directory''
                                \<and> truthy (pb_subdir body)
                             then path_join repo_dir (str_val (pb_subdir body))
                             else repo_dir)
                 in if \<not> isdir fs1 root
                    then (Inl (HTTPException 400 ''subdir not found in repository''), fs1)
                    else (Inr root, fs1))))
      else if pb_input_type body = ''zipped_folder''
      then
        (if \<not> truthy (pb_zip_url body)
         then (Inl (HTTPException 400 ''zip_url is required for zipped_folder''), fs)
         else download_and_extract_zip w (str_val (pb_zip_url body))
                (path_join work_root ''zip'') fs)
      else if pb_input_type body = ''pasted_code''
      then
        (if \<not> truthy (pb_code_snippet body)
         then (Inl (HTTPException 400 ''code_snippet is required for pasted_code''), fs)
         else (let (root, fs1) = write_snippet_temp work_root (str_val (pb_code_snippet body)) fs
               in (Inr root, fs1)))
      else (Inl (HTTPException 400 ''unknown input_type''), fs))"

text \<open>
  The body of the \<^verbatim>\<open>try\<close> block: materialize and index in the JSON or in the
  multipart mode, then write the manifest (the JSON object that holds the root; here
  the root itself), commit the volume and return the source id with the listing.
\<close>

definition prepare_try ::
  "world \<Rightarrow> prepare_request \<Rightarrow> string \<Rightarrow> string \<Rightarrow> volume_state \<Rightarrow>
   (error + prepare_response) \<times> volume_state" where
  "prepare_try w req source_id work_root s =
     (let indexed =
        (case req of
           JsonRequest None \<Rightarrow> (Inl (HTTPException 400 ''Bad request''), mounted s)
         | JsonRequest (Some body) \<Rightarrow>
             (case materialize w body work_root (mounted s) of
                (Inl e, fs1) \<Rightarrow> (Inl e, fs1)
              | (Inr root, fs1) \<Rightarrow>
                  (Inr (root,
                     index_files (scan_tree w fs1 root)
                       (list_or (pb_include_globs body) default_include)
                       (list_or (pb_exclude_globs body) default_exclude)
                       (int_or (pb_max_files body) 500)
                       (int_or (pb_max_total_bytes body) 20000000)), fs1))
         | FormRequest input_type None \<Rightarrow>
             (if input_type \<noteq> ''zipped_folder''
              then (Inl (HTTPException 400
                ''multipart supports input_type=zipped_folder only; use JSON for other types''),
                mounted s)
              else (Inl (HTTPException 400
                (''attach a .zip file as form field named '' @ [CHR 0x27] @ ''file''
                   @ [CHR 0x27])),
                mounted s))
         | FormRequest input_type (Some (UploadFile filename content)) \<Rightarrow>
             (if input_type \<noteq> ''zipped_folder''
              then (Inl (HTTPException 400
                ''multipart supports input_type=zipped_folder only; use JSON for other types''),
                mounted s)
              else if truthy filename
                      \<and> \<not> endswith (map lower_char (str_val filename)) ''.zip''
              then (Inl (HTTPException 400 ''uploaded file must be a .zip''), mounted s)
              else
                (let local_zip_dir = path_join work_root ''upload'';
                     fs1 = makedirs (mounted s) local_zip_dir;
                     local_zip_path = path_join local_zip_dir ''upload.zip'';
                     fs2 = fs1(local_zip_path \<mapsto> RegFile content);
                     extract_root = path_join local_zip_dir ''unzipped''
                 in case extract_zip_file w local_zip_path extract_root fs2 of
                      (Inl e, fs3) \<Rightarrow> (Inl e, fs3)
                    | (Inr root, fs3) \<Rightarrow>
                        (Inr (root,
                           index_files (scan_tree w fs3 root) default_include default_exclude
                             500 20000000), fs3))))
      in case indexed of
           (Inl e, fs1) \<Rightarrow> (Inl e, s\<lparr>mounted := fs1\<rparr>)
         | (Inr (root, files), fs1) \<Rightarrow>
             (Inr (source_id, files),
              commit (s\<lparr>mounted :=
                fs1(path_join work_root ''manifest.json'' \<mapsto> RegFile root)\<rparr>)))"

text \<open>
  The two \<^verbatim>\<open>except\<close> clauses: an \<^verbatim>\<open>HTTPException\<close> is raised again as it is, any
  other exception becomes a 500 with its message; both remove the working folder
  first.
\<close>

fun except_cleanup ::
  "string \<Rightarrow> (error + prepare_response) \<times> volume_state \<Rightarrow>
   (error + prepare_response) \<times> volume_state" where
  "except_cleanup work_root (Inr response, s1) = (Inr response, s1)"
| "except_cleanup work_root (Inl (HTTPException code detail), s1) =
     (Inl (HTTPException code detail), s1\<lparr>mounted := rmtree (mounted s1) work_root\<rparr>)"
| "except_cleanup work_root (Inl e, s1) =
     (Inl (HTTPException 500 (str_of_error e)),
      s1\<lparr>mounted := rmtree (mounted s1) work_root\<rparr>)"

text \<open>
  \<^verbatim>\<open>prepare\<close>: the bearer token is checked first (\<open>authorized\<close> is the outcome);
  \<open>source_id\<close> is the fresh identifier \<^verbatim>\<open>src-\<close> followed by eleven hexadecimal
  digits.
\<close>

definition prepare ::
  "world \<Rightarrow> bool \<Rightarrow> prepare_request \<Rightarrow> string \<Rightarrow> volume_state \<Rightarrow>
   (error + prepare_response) \<times> volume_state" where
  "prepare w authorized req source_id s =
     (if \<not> authorized then (Inl (HTTPException 401 ''Invalid or missing token''), s)
      else
        (let work_root = path_join ''/data'' source_id;
             s0 = s\<lparr>mounted := makedirs (mounted s) work_root\<rparr>
         in except_cleanup work_root (prepare_try w req source_id work_root s0)))"


section \<open>The endpoint that summarizes\<close>

text \<open>
  The validated body of \<^verbatim>\<open>/summarize\<close> (\<^verbatim>\<open>SummarizeBody\<close>); its sections and
  constraints only reach the language model, which is the function
  \<open>call_llm_sections\<close> from the bundle to the sections or to an error. A body that
  is not JSON or fails validation is \<open>None\<close>; both end in a 400, whose detail is
  shortened here. An exception of the bundle reader leaves the endpoint as it is.
\<close>

record summarize_body =
  sb_source_id :: string
  sb_selected_paths :: "string list"
  sb_cleanup :: "bool option"

type_synonym summarize_response = "string \<times> string"

definition summarize ::
  "(string \<Rightarrow> error + string) \<Rightarrow> bool \<Rightarrow> summarize_body option \<Rightarrow> volume_state \<Rightarrow>
   (error + summarize_response) \<times> volume_state" where
  "summarize call_llm_sections authorized request_body s =
     (if \<not> authorized then (Inl (HTTPException 401 ''Invalid or missing token''), s)
      else
        (let s1 = reload s in
         case request_body of
           None \<Rightarrow> (Inl (HTTPException 400 ''Bad request''), s1)
         | Some body \<Rightarrow>
             (let work_root = path_join ''/data'' (sb_source_id body);
                  manifest_path = path_join work_root ''manifest.json''
              in if \<not> isfile (mounted s1) manifest_path
                 then (Inl (HTTPException 400 ''unknown source_id or expired''), s1)
                 else
                   (let root = read_text (mounted s1) manifest_path
                    in if root = [] \<or> \<not> isdir (mounted s1) root
                       then (Inl (HTTPException 400 ''prepared source is missing''), s1)
                       else
                         (case read_selected_bundle (mounted s1) root
                                 (sb_selected_paths body) of
                            Inl e \<Rightarrow> (Inl e, s1)
                          | Inr bundle \<Rightarrow>
                              (case call_llm_sections bundle of
                                 Inl e \<Rightarrow> (Inl e, s1)
                               | Inr sections_json \<Rightarrow>
                                   (let s2 = (if sb_cleanup body = Some True
                                              then commit (s1\<lparr>mounted :=
                                                     rmtree (mounted s1) work_root\<rparr>)
                                              else s1)
                                    in (Inr (sb_source_id body, sections_json), s2))))))))"


section \<open>Concrete inputs\<close>

text \<open>
  A world without network, a request for a remote zip archive, an empty volume, and a
  volume that holds one prepared snippet session.
\<close>

definition offline_world :: world where
  "offline_world =
     \<lparr>github_token = None,
      run_git = (\<lambda>cmd fs. (False, fs)),
      urlopen = (\<lambda>url. None),
      zip_members = (\<lambda>data. None),
      scan_tree = (\<lambda>fs root. Dir [])\<rparr>"

definition zip_request :: prepare_request where
  "zip_request = JsonRequest (Some
     \<lparr>pb_input_type = ''zipped_folder'', pb_repo_url = None, pb_repo_ref = Some ''main'',
      pb_subdir = None, pb_zip_url = Some ''https://unreachable.invalid/a.zip'',
      pb_code_snippet = None, pb_include_globs = None, pb_exclude_globs = None,
      pb_max_files = Some 500, pb_max_total_bytes = Some 20000000\<rparr>)"

definition empty_volume :: volume_state where
  "empty_volume = \<lparr>mounted = Map.empty, committed = Map.empty\<rparr>"

definition snippet_files :: filesystem where
  "snippet_files =
     [''/data/src-1'' \<mapsto> Directory,
      ''/data/src-1/manifest.json'' \<mapsto> RegFile ''/data/src-1/snippet'',
      ''/data/src-1/snippet'' \<mapsto> Directory,
      ''/data/src-1/snippet/snippet.txt'' \<mapsto> RegFile ''print(1)'']"

definition snippet_volume :: volume_state where
  "snippet_volume = \<lparr>mounted = snippet_files, committed = snippet_files\<rparr>"

definition snippet_summary :: summarize_body where
  "snippet_summary =
     \<lparr>sb_source_id = ''src-1'', sb_selected_paths = [''snippet.txt''],
      sb_cleanup = Some True\<rparr>"

definition fixed_llm :: "string \<Rightarrow> error + string" where
  "fixed_llm bundle = Inr ''{}''"


section \<open>Properties of the file index\<close>

subsection \<open>The output is a prefix of the sorted candidates\<close>

lemma build_output_prefix:
  "\<exists>k. build_output prev mf mb cs out tot = out @ map (mk_entry prev) (take k cs)"
proof (induction cs arbitrary: out tot)
  case Nil
  then show ?case by simp
next
  case (Cons c cs)
  obtain p s where c: "c = (p, s)" by (cases c)
  show ?case
  proof (cases "int (length out) \<ge> mf \<or> int tot + int s > mb")
    case True
    then have "build_output prev mf mb (c # cs) out tot
        = out @ map (mk_entry prev) (take 0 (c # cs))"
      by (auto simp: c)
    then show ?thesis by blast
  next
    case False
    from Cons.IH [of "out @ [mk_entry prev c]" "tot + s"]
    obtain k where "build_output prev mf mb cs (out @ [mk_entry prev c]) (tot + s)
        = (out @ [mk_entry prev c]) @ map (mk_entry prev) (take k cs)" by blast
    with False have "build_output prev mf mb (c # cs) out tot
        = out @ map (mk_entry prev) (take (Suc k) (c # cs))"
      by (simp add: c mk_entry_def)
    then show ?thesis by blast
  qed
qed

lemma index_files_prefix:
  "\<exists>k. index_files root inc exc mf mb =
     map (mk_entry (read_preview (walk [] root)))
       (take k (sort (candidates inc exc (walk [] root))))"
  using build_output_prefix [of "read_preview (walk [] root)" mf mb
      "sort (candidates inc exc (walk [] root))" "[]" 0]
  by (simp add: index_files_def Let_def)

lemma path_mk_entry: "map path (map (mk_entry prev) cs) = map fst cs"
  by (simp add: mk_entry_def comp_def)

lemma sorted_map_fst:
  fixes xs :: "('a::linorder \<times> 'b::linorder) list"
  shows "sorted xs \<Longrightarrow> sorted (map fst xs)"
  by (induction xs) (auto simp: less_eq_prod_def)

lemma index_files_from_candidates:
  assumes e: "e \<in> set (index_files root inc exc mf mb)"
  shows "(path e, fsize e) \<in> set (candidates inc exc (walk [] root))"
proof -
  obtain k where k: "index_files root inc exc mf mb =
     map (mk_entry (read_preview (walk [] root)))
       (take k (sort (candidates inc exc (walk [] root))))"
    using index_files_prefix by blast
  with e obtain c where c: "c \<in> set (take k (sort (candidates inc exc (walk [] root))))"
      "e = mk_entry (read_preview (walk [] root)) c"
    by auto
  from c(1) have "c \<in> set (sort (candidates inc exc (walk [] root)))"
    by (rule in_set_takeD)
  then have "c \<in> set (candidates inc exc (walk [] root))" by simp
  with c(2) show ?thesis by (simp add: mk_entry_def)
qed

subsection \<open>The filters\<close>

lemma candidates_not_excluded:
  "(p, s) \<in> set (candidates inc exc files) \<Longrightarrow> \<not> matches_any p exc"
  by (induction inc exc files rule: candidates.induct)
    (auto split: if_splits option.splits)

lemma candidates_included:
  "(p, s) \<in> set (candidates inc exc files) \<Longrightarrow> inc = [] \<or> matches_any p inc"
  by (induction inc exc files rule: candidates.induct)
    (auto split: if_splits option.splits)

subsection \<open>The caps\<close>

lemma build_output_caps:
  assumes "int (length out) \<le> mf" "int tot \<le> mb" "tot = sum_list (map fsize out)"
  shows "int (length (build_output prev mf mb cs out tot)) \<le> mf \<and>
         int (sum_list (map fsize (build_output prev mf mb cs out tot))) \<le> mb"
  using assms
proof (induction cs arbitrary: out tot)
  case Nil
  then show ?case by simp
next
  case (Cons c cs)
  obtain p s where c: "c = (p, s)" by (cases c)
  show ?case
  proof (cases "int (length out) \<ge> mf \<or> int tot + int s > mb")
    case True
    with Cons.prems show ?thesis by (auto simp: c)
  next
    case False
    let ?e = "\<lparr>path = p, fsize = s, preview = prev p\<rparr>"
    have "int (length (out @ [?e])) \<le> mf" using False by simp
    moreover have "int (tot + s) \<le> mb" using False by simp
    moreover have "tot + s = sum_list (map fsize (out @ [?e]))"
      using Cons.prems(3) by simp
    ultimately have
      "int (length (build_output prev mf mb cs (out @ [?e]) (tot + s))) \<le> mf \<and>
       int (sum_list (map fsize (build_output prev mf mb cs (out @ [?e]) (tot + s)))) \<le> mb"
      by (rule Cons.IH)
    with False show ?thesis by (simp add: c)
  qed
qed


section \<open>The claims about the file index\<close>

text \<open>
  C7. Whatever the order in which the directories list their entries, the listing
  returned by \<^verbatim>\<open>index_files\<close> is sorted ascending by \<^verbatim>\<open>path\<close>, in the
  character-by-character order of strings.
\<close>

theorem index_files_sorted_by_path:
  "sorted (map path (index_files root include_globs exclude_globs max_files max_bytes))"
proof -
  obtain k where k: "index_files root include_globs exclude_globs max_files max_bytes =
     map (mk_entry (read_preview (walk [] root)))
       (take k (sort (candidates include_globs exclude_globs (walk [] root))))"
    using index_files_prefix by blast
  have "sorted (take k (sort (candidates include_globs exclude_globs (walk [] root))))"
    by simp
  then have
    "sorted (map fst (take k (sort (candidates include_globs exclude_globs (walk [] root)))))"
    by (rule sorted_map_fst)
  then show ?thesis
    by (simp only: k path_mk_entry)
qed

text \<open>
  C4. No entry of the listing has a path that matches an exclude pattern, whatever the
  include patterns are: the exclude test comes first and skips the file.
\<close>

theorem index_files_exclude_precedence:
  "\<forall>e \<in> set (index_files root include_globs exclude_globs max_files max_bytes).
     \<not> matches_any (path e) exclude_globs"
proof
  fix e
  assume "e \<in> set (index_files root include_globs exclude_globs max_files max_bytes)"
  then have "(path e, fsize e) \<in> set (candidates include_globs exclude_globs (walk [] root))"
    by (rule index_files_from_candidates)
  then show "\<not> matches_any (path e) exclude_globs"
    by (rule candidates_not_excluded)
qed

text \<open>
  An instance: \<^verbatim>\<open>src/b.py\<close> matches both the include and the exclude pattern and is
  left out; \<^verbatim>\<open>src/a.py\<close> is listed and matches no exclude pattern.
\<close>

theorem index_files_exclude_precedence_witness:
  "\<lparr>path = ''src/a.py'', fsize = 3, preview = ''x=1''\<rparr>
     \<in> set (index_files
         (Dir [(''src'', Dir [(''a.py'', File (Some 3) (Some ''x=1'')),
                             (''b.py'', File (Some 5) (Some ''y=2;;''))])])
         [''*.py''] [''*b.py''] 500 20000000)
   \<and> \<not> matches_any ''src/a.py'' [''*b.py'']
   \<and> matches_any ''src/b.py'' [''*.py'']
   \<and> matches_any ''src/b.py'' [''*b.py'']
   \<and> map path (index_files
         (Dir [(''src'', Dir [(''a.py'', File (Some 3) (Some ''x=1'')),
                             (''b.py'', File (Some 5) (Some ''y=2;;''))])])
         [''*.py''] [''*b.py''] 500 20000000) = [''src/a.py'']"
proof -
  let ?T = "Dir [(''src'', Dir [(''a.py'', File (Some 3) (Some ''x=1'')),
                               (''b.py'', File (Some 5) (Some ''y=2;;''))])]"
  have idx: "index_files ?T [''*.py''] [''*b.py''] 500 20000000
      = [\<lparr>path = ''src/a.py'', fsize = 3, preview = ''x=1''\<rparr>]"
    by code_simp
  have m: "matches_any ''src/b.py'' [''*.py'']" "matches_any ''src/b.py'' [''*b.py'']"
    by code_simp+
  from idx have "\<lparr>path = ''src/a.py'', fsize = 3, preview = ''x=1''\<rparr>
     \<in> set (index_files ?T [''*.py''] [''*b.py''] 500 20000000)" by simp
  with index_files_exclude_precedence [of ?T "[''*.py'']" "[''*b.py'']" 500 20000000]
  have "\<not> matches_any ''src/a.py'' [''*b.py'']" by fastforce
  with idx m show ?thesis by simp
qed

text \<open>
  C3, as stated for every pair of caps, fails: the caps are Python integers, and with a
  negative cap the listing is empty, so its count 0 and its byte sum 0 exceed the cap.
\<close>

theorem index_files_negative_caps_counterexample:
  "\<not> (int (sum_list (map fsize (index_files (Dir []) [] [] (- 1) (- 1)))) \<le> - 1)
   \<and> \<not> (int (length (index_files (Dir []) [] [] (- 1) (- 1))) \<le> - 1)"
  by (simp add: index_files_def)

text \<open>
  C3, amended. For caps that are not negative, the sizes of the returned entries sum to
  at most \<^verbatim>\<open>max_bytes\<close> and there are at most \<^verbatim>\<open>max_files\<close> of them.
\<close>

theorem index_files_within_caps:
  assumes "0 \<le> max_files" and "0 \<le> max_bytes"
  shows "int (sum_list (map fsize
             (index_files root include_globs exclude_globs max_files max_bytes)))
           \<le> max_bytes
       \<and> int (length (index_files root include_globs exclude_globs max_files max_bytes))
           \<le> max_files"
  using build_output_caps [of "[]" max_files 0 max_bytes "read_preview (walk [] root)"
      "sort (candidates include_globs exclude_globs (walk [] root))"] assms
  by (simp add: index_files_def Let_def)

theorem index_files_within_caps_witness:
  "(0::int) \<le> 1 \<and> (0::int) \<le> 7
   \<and> int (sum_list (map fsize (index_files
         (Dir [(''a.txt'', File (Some 6) (Some ''aaaaaa'')),
               (''b.txt'', File (Some 4) (Some ''bbbb''))])
         [] [] 1 7))) \<le> 7
   \<and> int (length (index_files
         (Dir [(''a.txt'', File (Some 6) (Some ''aaaaaa'')),
               (''b.txt'', File (Some 4) (Some ''bbbb''))])
         [] [] 1 7)) \<le> 1
   \<and> map path (index_files
         (Dir [(''a.txt'', File (Some 6) (Some ''aaaaaa'')),
               (''b.txt'', File (Some 4) (Some ''bbbb''))])
         [] [] 1 7) = [''a.txt'']"
proof -
  let ?T = "Dir [(''a.txt'', File (Some 6) (Some ''aaaaaa'')),
                 (''b.txt'', File (Some 4) (Some ''bbbb''))]"
  have "map path (index_files ?T [] [] 1 7) = [''a.txt'']"
    by code_simp
  with index_files_within_caps [of 1 7 ?T "[]" "[]"] show ?thesis by simp
qed

text \<open>
  C1, as stated, fails: with \<^verbatim>\<open>max_bytes = 10\<close> and the two candidates of sizes 6
  and 4, the second test is \<^verbatim>\<open>6 + 4 > 10\<close>, which is false, so the 4-byte file is
  appended as well.
\<close>

theorem index_files_cap_boundary_counterexample:
  "index_files
     (Dir [(''a.txt'', File (Some 6) (Some ''aaaaaa'')),
           (''b.txt'', File (Some 4) (Some ''bbbb''))])
     [] [] 500 10
   = [\<lparr>path = ''a.txt'', fsize = 6, preview = ''aaaaaa''\<rparr>,
      \<lparr>path = ''b.txt'', fsize = 4, preview = ''bbbb''\<rparr>]"
  by code_simp

text \<open>
  C1, amended. When the sorted candidates are exactly two files of sizes 6 and 4 and
  the count cap admits two files, the listing holds both files for every byte cap of at
  least 10, only the first for a byte cap from 6 to 9, and nothing below 6: the loop
  stops only where the running total would become strictly greater than the cap.
\<close>

theorem index_files_two_candidates:
  assumes "sort (candidates include_globs exclude_globs (walk [] root)) = [(p1, 6), (p2, 4)]"
    and "2 \<le> max_files"
  shows "map path (index_files root include_globs exclude_globs max_files max_bytes) =
           (if 10 \<le> max_bytes then [p1, p2] else if 6 \<le> max_bytes then [p1] else [])"
  using assms by (simp add: index_files_def Let_def)

theorem index_files_two_candidates_witness:
  "sort (candidates [] [] (walk []
       (Dir [(''b.txt'', File (Some 4) (Some ''bbbb'')),
             (''a.txt'', File (Some 6) (Some ''aaaaaa''))])))
     = [(''a.txt'', 6), (''b.txt'', 4)]
   \<and> (2::int) \<le> 2
   \<and> map path (index_files
       (Dir [(''b.txt'', File (Some 4) (Some ''bbbb'')),
             (''a.txt'', File (Some 6) (Some ''aaaaaa''))])
       [] [] 2 10) = [''a.txt'', ''b.txt'']"
proof -
  let ?T = "Dir [(''b.txt'', File (Some 4) (Some ''bbbb'')),
                 (''a.txt'', File (Some 6) (Some ''aaaaaa''))]"
  have c: "sort (candidates [] [] (walk [] ?T)) = [(''a.txt'', 6), (''b.txt'', 4)]"
    by code_simp
  from index_files_two_candidates [OF c, of 2 10] c show ?thesis by simp
qed


section \<open>The claim about the glob semantics\<close>

text \<open>
  C2. The predicate of the indexer is \<open>matches_any\<close>: true exactly when some pattern
  of the list matches under \<open>fnmatch\<close>, case-sensitively. Under \<open>fnmatch\<close> two
  stars are one star and a star matches the separator, so a pattern that starts with
  \<^verbatim>\<open>**/\<close> matches only paths that contain a slash. At the path
  \<^verbatim>\<open>snippet.txt\<close> and the pattern \<^verbatim>\<open>**/*.txt\<close> the predicate is false where
  shell-style matching is true: a file at the top of the root matches none of the
  default include patterns, and the snippet of a pasted-code request, the only file
  below its root, is not listed under the defaults. A single star, in turn, reaches
  across directories where shell-style matching keeps it inside one segment. Upper and
  lower case are told apart.
\<close>

theorem fnmatch_double_star_needs_slash:
  "spec_matches ''snippet.txt'' [''**/*.txt'']
   \<and> \<not> matches_any ''snippet.txt'' [''**/*.txt'']
   \<and> spec_matches ''snippet.txt'' default_include
   \<and> \<not> matches_any ''snippet.txt'' default_include
   \<and> index_files (Dir [(''snippet.txt'', File (Some 8) (Some ''print(1)''))])
         default_include default_exclude 500 20000000 = []
   \<and> matches_any ''a/snippet.txt'' [''**/*.txt'']
   \<and> \<not> spec_matches ''docs/api/notes.txt'' [''*.txt'']
   \<and> matches_any ''docs/api/notes.txt'' [''*.txt'']
   \<and> \<not> matches_any ''README.TXT'' [''*.txt'']"
proof -
  have 1: "spec_matches ''snippet.txt'' [''**/*.txt'']"
    by code_simp
  have 2: "\<not> matches_any ''snippet.txt'' [''**/*.txt'']"
    by code_simp
  have 3: "spec_matches ''snippet.txt'' default_include"
    by code_simp
  have 4: "\<not> matches_any ''snippet.txt'' default_include"
    by code_simp
  have 5: "index_files (Dir [(''snippet.txt'', File (Some 8) (Some ''print(1)''))])
         default_include default_exclude 500 20000000 = []"
    by code_simp
  have 6: "matches_any ''a/snippet.txt'' [''**/*.txt'']"
    by code_simp
  have 7: "\<not> spec_matches ''docs/api/notes.txt'' [''*.txt'']"
    by code_simp
  have 8: "matches_any ''docs/api/notes.txt'' [''*.txt'']"
    by code_simp
  have 9: "\<not> matches_any ''README.TXT'' [''*.txt'']"
    by code_simp
  from 1 2 3 4 5 6 7 8 9 show ?thesis by blast
qed


section \<open>Properties of the bundle reader\<close>

lemma read_parts_all_present:
  "\<forall>rel \<in> set sel. isfile fs (path_join root rel) \<Longrightarrow>
   read_parts fs root sel parts =
     Inr (parts @ map (\<lambda>rel. file_block rel (read_text fs (path_join root rel))) sel)"
  by (induction sel arbitrary: parts) (simp_all add: Let_def)

lemma read_parts_missing:
  "\<exists>rel \<in> set sel. \<not> isfile fs (path_join root rel) \<Longrightarrow>
   \<exists>rel \<in> set sel. \<not> isfile fs (path_join root rel) \<and>
     read_parts fs root sel parts = Inl (FileNotFoundError (''Missing file '' @ rel))"
proof (induction sel arbitrary: parts)
  case Nil
  then show ?case by simp
next
  case (Cons r rs)
  show ?case
  proof (cases "isfile fs (path_join root r)")
    case False
    then show ?thesis by (auto simp: Let_def)
  next
    case True
    with Cons.prems have "\<exists>rel \<in> set rs. \<not> isfile fs (path_join root rel)" by auto
    from Cons.IH [OF this, of "parts @ [file_block r (read_text fs (path_join root r))]"] True
    show ?thesis by (auto simp: Let_def)
  qed
qed

text \<open>
  C5. When some selected path does not lead to a regular file, the bundle reader
  raises \<^verbatim>\<open>FileNotFoundError\<close> for a missing path of the selection and returns no
  text at all.
\<close>

theorem read_selected_bundle_missing:
  assumes "\<exists>rel \<in> set selected_paths. \<not> isfile fs (path_join root rel)"
  shows "(\<exists>rel \<in> set selected_paths. \<not> isfile fs (path_join root rel) \<and>
            read_selected_bundle fs root selected_paths =
              Inl (FileNotFoundError (''Missing file '' @ rel)))
         \<and> (\<forall>text. read_selected_bundle fs root selected_paths \<noteq> Inr text)"
proof -
  from read_parts_missing [OF assms, of "[]"]
  obtain rel where rel: "rel \<in> set selected_paths" "\<not> isfile fs (path_join root rel)"
    "read_parts fs root selected_paths [] = Inl (FileNotFoundError (''Missing file '' @ rel))"
    by blast
  then have "read_selected_bundle fs root selected_paths =
      Inl (FileNotFoundError (''Missing file '' @ rel))"
    by (simp add: read_selected_bundle_def)
  with rel show ?thesis by auto
qed

text \<open>
  The instance of the spec: \<^verbatim>\<open>a.txt\<close> exists with the text \<^verbatim>\<open>hi\<close>,
  \<^verbatim>\<open>b.txt\<close> does not.
\<close>

theorem read_selected_bundle_missing_witness:
  "isfile [''/data/src-1/repo/a.txt'' \<mapsto> RegFile ''hi'']
       (path_join ''/data/src-1/repo'' ''a.txt'')
   \<and> \<not> isfile [''/data/src-1/repo/a.txt'' \<mapsto> RegFile ''hi'']
       (path_join ''/data/src-1/repo'' ''b.txt'')
   \<and> read_selected_bundle [''/data/src-1/repo/a.txt'' \<mapsto> RegFile ''hi'']
        ''/data/src-1/repo'' [''a.txt'', ''b.txt'']
      = Inl (FileNotFoundError ''Missing file b.txt'')"
proof -
  let ?fs = "[''/data/src-1/repo/a.txt'' \<mapsto> RegFile ''hi'']"
  have a: "isfile ?fs (path_join ''/data/src-1/repo'' ''a.txt'')"
    by (simp add: isfile_def path_join_def)
  have b: "\<not> isfile ?fs (path_join ''/data/src-1/repo'' ''b.txt'')"
    by (simp add: isfile_def path_join_def)
  then have h: "\<exists>rel \<in> set [''a.txt'', ''b.txt''].
      \<not> isfile ?fs (path_join ''/data/src-1/repo'' rel)"
    by simp
  from read_selected_bundle_missing [OF h] a
  have "read_selected_bundle ?fs ''/data/src-1/repo'' [''a.txt'', ''b.txt'']
      = Inl (FileNotFoundError ''Missing file b.txt'')"
    by auto
  with a b show ?thesis by blast
qed

text \<open>
  C8. When every selected path leads to a regular file, the bundle reader returns one
  text: for each path, in the order of the selection, the header line
  \<^verbatim>\<open># === path ===\<close>, the file's text and a line break, the blocks of consecutive
  files joined by one more line break (a blank line).
\<close>

theorem read_selected_bundle_in_order:
  assumes "\<forall>rel \<in> set selected_paths. isfile fs (path_join root rel)"
  shows "read_selected_bundle fs root selected_paths =
     Inr (str_join newline
       (map (\<lambda>rel. ''# === '' @ rel @ '' ==='' @ newline
                    @ read_text fs (path_join root rel) @ newline) selected_paths))"
  using read_parts_all_present [OF assms, of "[]"]
  by (simp add: read_selected_bundle_def file_block_def)

text \<open>
  The instance of the spec: \<^verbatim>\<open>a.txt\<close> holds \<^verbatim>\<open>X\<close> and \<^verbatim>\<open>b.txt\<close> holds
  \<^verbatim>\<open>Y\<close>.
\<close>

theorem read_selected_bundle_in_order_witness:
  "isfile [''/r/a.txt'' \<mapsto> RegFile ''X'', ''/r/b.txt'' \<mapsto> RegFile ''Y'']
       (path_join ''/r'' ''a.txt'')
   \<and> isfile [''/r/a.txt'' \<mapsto> RegFile ''X'', ''/r/b.txt'' \<mapsto> RegFile ''Y'']
       (path_join ''/r'' ''b.txt'')
   \<and> read_selected_bundle [''/r/a.txt'' \<mapsto> RegFile ''X'', ''/r/b.txt'' \<mapsto> RegFile ''Y'']
        ''/r'' [''a.txt'', ''b.txt'']
      = Inr (''# === a.txt ==='' @ newline @ ''X'' @ newline @ newline @
             ''# === b.txt ==='' @ newline @ ''Y'' @ newline)"
proof -
  let ?fs = "[''/r/a.txt'' \<mapsto> RegFile ''X'', ''/r/b.txt'' \<mapsto> RegFile ''Y'']"
  have a: "isfile ?fs (path_join ''/r'' ''a.txt'')"
    by (simp add: isfile_def path_join_def)
  have b: "isfile ?fs (path_join ''/r'' ''b.txt'')"
    by (simp add: isfile_def path_join_def)
  from a b have h: "\<forall>rel \<in> set [''a.txt'', ''b.txt'']. isfile ?fs (path_join ''/r'' rel)"
    by simp
  have "read_selected_bundle ?fs ''/r'' [''a.txt'', ''b.txt'']
      = Inr (''# === a.txt ==='' @ newline @ ''X'' @ newline @ newline @
             ''# === b.txt ==='' @ newline @ ''Y'' @ newline)"
    using read_selected_bundle_in_order [OF h]
    by (simp add: read_text_def path_join_def)
  with a b show ?thesis by blast
qed

text \<open>
  C10. For an empty selection the bundle reader returns the empty string and raises
  nothing, whatever the root is.
\<close>

theorem read_selected_bundle_empty:
  "read_selected_bundle fs root [] = Inr []"
  by (simp add: read_selected_bundle_def)


section \<open>Properties of the sessions\<close>

lemma path_join_relative:
  "a \<noteq> [] \<Longrightarrow> b = [] \<or> hd b \<noteq> CHR ''/'' \<Longrightarrow> path_join a b = dir_prefix a @ b"
  by (auto simp: path_join_def dir_prefix_def)

lemma inside_path_join:
  "a \<noteq> [] \<Longrightarrow> b = [] \<or> hd b \<noteq> CHR ''/'' \<Longrightarrow> inside a (path_join a b)"
  by (simp add: path_join_relative inside_def)

lemma work_root_nonempty: "path_join ''/data'' source_id \<noteq> []"
  by (auto simp: path_join_def)

lemma rmtree_inside: "inside d p \<Longrightarrow> rmtree fs d p = None"
  by (simp add: rmtree_def)

lemma not_isfile_None: "fs p = None \<Longrightarrow> \<not> isfile fs p"
  by (simp add: isfile_def)

lemma except_cleanup_failure:
  assumes "fst (except_cleanup work_root (r, s1)) = Inl e"
  shows "(\<exists>e'. r = Inl e') \<and>
         snd (except_cleanup work_root (r, s1))
           = s1\<lparr>mounted := rmtree (mounted s1) work_root\<rparr>"
proof (cases r)
  case (Inl e')
  then show ?thesis by (cases e') simp_all
next
  case (Inr resp)
  with assms show ?thesis by simp
qed

lemma prepare_try_failure_commits_nothing:
  assumes "prepare_try w req source_id work_root s0 = (Inl e, s1)"
  shows "committed s1 = committed s0"
  using assms
  by (auto simp: prepare_try_def Let_def
      split: prepare_request.splits option.splits prod.splits sum.splits if_splits
        upload.splits)

text \<open>
  C6. When an authorized \<^verbatim>\<open>/prepare\<close> request ends in an error, whatever the
  request, the outside world and the stage at which it failed, the container's file
  system holds nothing at the working folder \<^verbatim>\<open>/data/<source_id>\<close> or below it when
  the error is raised, and nothing was committed to the volume.
\<close>

theorem prepare_failure_cleans_up:
  assumes "fst (prepare w True req source_id s) = Inl e"
  shows "(\<forall>p. inside (path_join ''/data'' source_id) p \<longrightarrow>
              mounted (snd (prepare w True req source_id s)) p = None)
       \<and> committed (snd (prepare w True req source_id s)) = committed s"
proof -
  define work_root where "work_root = path_join ''/data'' source_id"
  define s0 where "s0 = s\<lparr>mounted := makedirs (mounted s) work_root\<rparr>"
  obtain r s1 where t: "prepare_try w req source_id work_root s0 = (r, s1)"
    by (cases "prepare_try w req source_id work_root s0")
  have p: "prepare w True req source_id s = except_cleanup work_root (r, s1)"
    by (simp add: prepare_def Let_def work_root_def [symmetric] s0_def [symmetric] t)
  from assms p have "fst (except_cleanup work_root (r, s1)) = Inl e" by simp
  from except_cleanup_failure [OF this]
  obtain e' where r: "r = Inl e'"
    and s': "snd (prepare w True req source_id s)
               = s1\<lparr>mounted := rmtree (mounted s1) work_root\<rparr>"
    using p by auto
  from t r have "committed s1 = committed s0"
    by (simp add: prepare_try_failure_commits_nothing)
  then have "committed s1 = committed s" by (simp add: s0_def)
  then show ?thesis
    by (simp add: s' rmtree_inside work_root_def [symmetric])
qed

text \<open>
  The instance of the spec: a remote zip archive behind a URL that cannot be reached.
  The request fails with a 500, and neither the working folder nor the folder made
  for the archive is left.
\<close>

theorem prepare_failure_cleans_up_witness:
  "fst (prepare offline_world True zip_request ''src-0123456789a'' empty_volume)
     = Inl (HTTPException 500 ''urlopen error'')
   \<and> mounted (snd (prepare offline_world True zip_request ''src-0123456789a'' empty_volume))
       ''/data/src-0123456789a'' = None
   \<and> mounted (snd (prepare offline_world True zip_request ''src-0123456789a'' empty_volume))
       ''/data/src-0123456789a/zip'' = None
   \<and> committed (snd (prepare offline_world True zip_request ''src-0123456789a'' empty_volume))
       = Map.empty"
proof -
  let ?r = "prepare offline_world True zip_request ''src-0123456789a'' empty_volume"
  have f: "fst ?r = Inl (HTTPException 500 ''urlopen error'')"
    by (simp add: prepare_def prepare_try_def materialize_def download_and_extract_zip_def
        offline_world_def zip_request_def empty_volume_def truthy_def str_val_def Let_def)
  have i1: "inside (path_join ''/data'' ''src-0123456789a'') ''/data/src-0123456789a''"
    by (simp add: inside_def path_join_def)
  have i2: "inside (path_join ''/data'' ''src-0123456789a'') ''/data/src-0123456789a/zip''"
    by (simp add: inside_def path_join_def dir_prefix_def)
  from prepare_failure_cleans_up [OF f] i1 i2
  have "mounted (snd ?r) ''/data/src-0123456789a'' = None"
    and "mounted (snd ?r) ''/data/src-0123456789a/zip'' = None"
    and "committed (snd ?r) = committed empty_volume"
    by blast+
  with f show ?thesis by (simp add: empty_volume_def)
qed

text \<open>
  C9. When \<^verbatim>\<open>/summarize\<close> has succeeded with \<^verbatim>\<open>cleanup\<close> set, so that the session
  was destroyed, nothing is left at the session's folder or below it, in the container
  and on the volume, and every later \<^verbatim>\<open>/summarize\<close> for the same source id, from
  any container, fails with the 400 for an unknown source id.
\<close>

theorem summarize_cleanup_destroys_session:
  assumes "fst (summarize llm True (Some body) s) = Inr r"
    and "sb_cleanup body = Some True"
  shows "(\<forall>p. inside (path_join ''/data'' (sb_source_id body)) p \<longrightarrow>
              mounted (snd (summarize llm True (Some body) s)) p = None
            \<and> committed (snd (summarize llm True (Some body) s)) p = None)
       \<and> (\<forall>llm' body' view. sb_source_id body' = sb_source_id body \<longrightarrow>
             fst (summarize llm' True (Some body')
                   ((snd (summarize llm True (Some body) s))\<lparr>mounted := view\<rparr>))
               = Inl (HTTPException 400 ''unknown source_id or expired''))"
proof -
  define work_root where "work_root = path_join ''/data'' (sb_source_id body)"
  define s' where "s' = snd (summarize llm True (Some body) s)"
  have s': "s' = commit ((reload s)\<lparr>mounted := rmtree (mounted (reload s)) work_root\<rparr>)"
    using assms unfolding s'_def
    by (auto simp: summarize_def Let_def work_root_def split: if_splits sum.splits)
  have gone: "\<And>p. inside work_root p \<Longrightarrow> mounted s' p = None \<and> committed s' p = None"
    by (simp add: s' commit_def rmtree_inside)
  have m: "inside work_root (path_join work_root ''manifest.json'')"
    by (rule inside_path_join) (simp_all add: work_root_def work_root_nonempty)
  have "\<not> isfile (committed s') (path_join work_root ''manifest.json'')"
    using gone [OF m] by (simp add: not_isfile_None)
  then have again: "\<And>llm' body' view. sb_source_id body' = sb_source_id body \<Longrightarrow>
      fst (summarize llm' True (Some body') (s'\<lparr>mounted := view\<rparr>))
        = Inl (HTTPException 400 ''unknown source_id or expired'')"
    by (simp add: summarize_def Let_def reload_def work_root_def)
  from gone again show ?thesis
    unfolding s'_def work_root_def by blast
qed

text \<open>
  An instance: the prepared snippet session \<^verbatim>\<open>src-1\<close> is summarized with cleanup;
  the same request, sent again, finds no session.
\<close>

theorem summarize_cleanup_destroys_session_witness:
  "fst (summarize fixed_llm True (Some snippet_summary) snippet_volume) = Inr (''src-1'', ''{}'')
   \<and> sb_cleanup snippet_summary = Some True
   \<and> mounted (snd (summarize fixed_llm True (Some snippet_summary) snippet_volume))
       ''/data/src-1/manifest.json'' = None
   \<and> committed (snd (summarize fixed_llm True (Some snippet_summary) snippet_volume))
       ''/data/src-1'' = None
   \<and> fst (summarize fixed_llm True (Some snippet_summary)
            (snd (summarize fixed_llm True (Some snippet_summary) snippet_volume)))
       = Inl (HTTPException 400 ''unknown source_id or expired'')"
proof -
  let ?s' = "snd (summarize fixed_llm True (Some snippet_summary) snippet_volume)"
  have f: "fst (summarize fixed_llm True (Some snippet_summary) snippet_volume)
      = Inr (''src-1'', ''{}'')"
    by (simp add: summarize_def reload_def snippet_volume_def snippet_files_def
        snippet_summary_def fixed_llm_def path_join_def isfile_def isdir_def read_text_def
        read_selected_bundle_def Let_def)
  have c: "sb_cleanup snippet_summary = Some True"
    by (simp add: snippet_summary_def)
  have i1: "inside (path_join ''/data'' (sb_source_id snippet_summary))
      ''/data/src-1/manifest.json''"
    by (simp add: inside_def path_join_def dir_prefix_def snippet_summary_def)
  have i2: "inside (path_join ''/data'' (sb_source_id snippet_summary)) ''/data/src-1''"
    by (simp add: inside_def path_join_def snippet_summary_def)
  note t = summarize_cleanup_destroys_session [OF f c]
  from t i1 have g1: "mounted ?s' ''/data/src-1/manifest.json'' = None" by blast
  from t i2 have g2: "committed ?s' ''/data/src-1'' = None" by blast
  from t have "fst (summarize fixed_llm True (Some snippet_summary)
      (?s'\<lparr>mounted := mounted ?s'\<rparr>))
        = Inl (HTTPException 400 ''unknown source_id or expired'')"
    by blast
  then have g3: "fst (summarize fixed_llm True (Some snippet_summary) ?s')
        = Inl (HTTPException 400 ''unknown source_id or expired'')"
    by simp
  from f c g1 g2 g3 show ?thesis by blast
qed

end
